theory Spec2Isabelle
  imports Main "HOL-Library.Word"
begin

section \<open>The Node.js platform, as far as the SDK uses it\<close>

text \<open>
  A JavaScript string is a \<^typ>\<open>string\<close>: one \<^typ>\<open>char\<close> per UTF-16 code unit, for the
  code units U+0000 to U+00FF. Every character the SDK gives a meaning to (hex digits, decimal
  digits, the separators, the header names, the \<^verbatim>\<open>sha256=\<close> prefix) lies in that range.
  A JavaScript \<^verbatim>\<open>number\<close> that holds whole seconds or milliseconds is an \<^typ>\<open>int\<close>.
  The code computes with IEEE doubles, so the model is the code only on the safe integers
  (\<open>isSafeInteger\<close> below, magnitudes under \<open>2 ^ 53\<close>): there a double holds the integer
  exactly and prints all its digits. A statement that depends on the value of a number carries
  that bound; fractions, \<^verbatim>\<open>NaN\<close> and the infinities are outside the model.

  The hash functions of Node's \<^verbatim>\<open>crypto\<close> module are not code of the SDK. They are
  parameters of the model: \<open>hmac key data\<close> is the 256-bit HMAC-SHA256 of the UTF-8 bytes of
  \<open>data\<close> under \<open>key\<close>, \<open>md5 data\<close> the 128-bit MD5 digest. Nothing is assumed of them
  but their output width.
\<close>

type_synonym byte = "8 word"
type_synonym hmac_sha256 = "string \<Rightarrow> string \<Rightarrow> 256 word"
type_synonym md5_hash = "string \<Rightarrow> 128 word"

subsection \<open>\<^verbatim>\<open>digest("hex")\<close> and \<^verbatim>\<open>Buffer.from(s, "hex")\<close>\<close>

definition bytes_of_word :: "'a::len word \<Rightarrow> byte list" where
  \<comment> \<open>the digest as a byte sequence, most significant byte first\<close>
  "bytes_of_word w = map (\<lambda>i. ucast (drop_bit (8 * i) w)) (rev [0..<LENGTH('a) div 8])"

definition hexChar :: "nat \<Rightarrow> char" where
  "hexChar n = ''0123456789abcdef'' ! n"

definition toHex :: "byte list \<Rightarrow> string" where
  "toHex bs = concat (map (\<lambda>b. [hexChar (unat b div 16), hexChar (unat b mod 16)]) bs)"

definition digestHex :: "'a::len word \<Rightarrow> string" where
  "digestHex w = toHex (bytes_of_word w)"

definition unhex :: "char \<Rightarrow> nat option" where
  \<comment> \<open>Node's table: \<open>0-9\<close>, \<open>A-F\<close> and \<open>a-f\<close> have a value, every other code unit has none\<close>
  "unhex c =
     (let n = (of_char c :: nat) in
      if 48 \<le> n \<and> n \<le> 57 then Some (n - 48)
      else if 65 \<le> n \<and> n \<le> 70 then Some (n - 55)
      else if 97 \<le> n \<and> n \<le> 102 then Some (n - 87)
      else None)"

fun Buffer_from_hex :: "string \<Rightarrow> byte list" where
  \<comment> \<open>Node's \<^verbatim>\<open>Buffer.from(s, "hex")\<close> never throws on a string. It decodes pair by pair
      and truncates at the first pair that is not two hex digits (its documentation:
      \<^verbatim>\<open>Buffer.from('1ag123', 'hex')\<close> is the one byte \<^verbatim>\<open>1a\<close>); a single trailing
      character is dropped (\<^verbatim>\<open>Buffer.from('1a7', 'hex')\<close> is \<^verbatim>\<open>1a\<close> too)\<close>
  "Buffer_from_hex (a # b # rest) =
     (case unhex a of
        None \<Rightarrow> []
      | Some hi \<Rightarrow>
          (case unhex b of
             None \<Rightarrow> []
           | Some lo \<Rightarrow> word_of_nat (16 * hi + lo) # Buffer_from_hex rest))"
| "Buffer_from_hex [c] = []"
| "Buffer_from_hex [] = []"

datatype js_error = RangeError string | TypeError string

definition timingSafeEqual :: "byte list \<Rightarrow> byte list \<Rightarrow> js_error + bool" where
  \<comment> \<open>\<^verbatim>\<open>crypto.timingSafeEqual\<close> throws when the two buffers differ in byte length\<close>
  "timingSafeEqual a b =
     (if length a \<noteq> length b
      then Inl (RangeError ''Input buffers must have the same byte length'')
      else Inr (a = b))"

subsection \<open>String methods\<close>

definition toLowerCaseChar :: "char \<Rightarrow> char" where
  "toLowerCaseChar c =
     (let n = (of_char c :: nat) in
      if (65 \<le> n \<and> n \<le> 90) \<or> (192 \<le> n \<and> n \<le> 222 \<and> n \<noteq> 215)
      then char_of (n + 32) else c)"

definition toLowerCase :: "string \<Rightarrow> string" where
  "toLowerCase s = map toLowerCaseChar s"

definition startsWith :: "string \<Rightarrow> string \<Rightarrow> bool" where
  "startsWith s p = (take (length p) s = p)"

definition slice :: "string \<Rightarrow> nat \<Rightarrow> string" where
  "slice s n = drop n s"

subsection \<open>\<^verbatim>\<open>parseInt(s, 10)\<close> and the rendering of a number in a template literal\<close>

definition isSafeInteger :: "int \<Rightarrow> bool" where
  \<comment> \<open>\<^verbatim>\<open>Number.isSafeInteger\<close>: the integers a double holds exactly, with their neighbours\<close>
  "isSafeInteger n = (- (2 ^ 53) < n \<and> n < 2 ^ 53)"

definition isStrWhiteSpaceChar :: "char \<Rightarrow> bool" where
  "isStrWhiteSpaceChar c = ((of_char c :: nat) \<in> set [9, 10, 11, 12, 13, 32, 160])"

definition isDecimalDigit :: "char \<Rightarrow> bool" where
  "isDecimalDigit c = (48 \<le> (of_char c :: nat) \<and> (of_char c :: nat) \<le> 57)"

definition digitsValue :: "string \<Rightarrow> int" where
  "digitsValue z = foldl (\<lambda>acc c. 10 * acc + (int (of_char c) - 48)) 0 z"

definition parseInt10 :: "string \<Rightarrow> int option" where
  \<comment> \<open>\<open>None\<close> is \<^verbatim>\<open>NaN\<close>. Leading white space is skipped, one sign is read, then the
      longest run of decimal digits; whatever follows the digits is ignored. The result is the
      exact integer; the code's double is that integer when it is a safe integer, and its
      rounding otherwise\<close>
  "parseInt10 s =
     (let t = dropWhile isStrWhiteSpaceChar s;
          neg = (t \<noteq> [] \<and> hd t = CHR ''-'');
          u = (if t \<noteq> [] \<and> (hd t = CHR ''-'' \<or> hd t = CHR ''+'') then tl t else t);
          z = takeWhile isDecimalDigit u
      in if z = [] then None
         else Some (if neg then - digitsValue z else digitsValue z))"

definition digitChar :: "nat \<Rightarrow> char" where
  "digitChar d = ''0123456789'' ! d"

fun decimalDigits :: "nat \<Rightarrow> string" where
  "decimalDigits n =
     (if n < 10 then [digitChar n]
      else decimalDigits (n div 10) @ [digitChar (n mod 10)])"

declare decimalDigits.simps [simp del]

definition numberToString :: "int \<Rightarrow> string" where
  \<comment> \<open>\<^verbatim>\<open>`${n}`\<close> for a safe integer \<open>n\<close>, which JavaScript prints with all its decimal
      digits. Beyond the safe integers the code prints the digits of the rounded double, and
      from \<open>10 ^ 21\<close> on an exponent form (\<^verbatim>\<open>1e+21\<close>): there this function is not the code\<close>
  "numberToString n =
     (if n < 0 then CHR ''-'' # decimalDigits (nat (- n)) else decimalDigits (nat n))"

section \<open>crypto.ts: the canonical signer\<close>

definition md5Hex :: "md5_hash \<Rightarrow> string \<Rightarrow> string" where
  "md5Hex md5 dat = digestHex (md5 dat)"

definition signRequest ::
  "hmac_sha256 \<Rightarrow> md5_hash \<Rightarrow> string \<Rightarrow> string \<Rightarrow> string \<Rightarrow> string \<Rightarrow> int \<Rightarrow> string" where
  "signRequest hmac md5 secret method path body timestamp =
     (let bodyMD5 = (if body = [] then [] else md5Hex md5 body);
          sigString = numberToString timestamp @ ''\<newline>'' @ method @ ''\<newline>'' @ path
                        @ ''\<newline>'' @ bodyMD5
      in digestHex (hmac secret sigString))"

definition truthy :: "string option \<Rightarrow> bool" where
  \<comment> \<open>the condition \<^verbatim>\<open>x ? ... : ...\<close> on a \<^verbatim>\<open>string | undefined\<close>: the empty string
      is falsy, as \<^verbatim>\<open>undefined\<close> is\<close>
  "truthy x = (case x of None \<Rightarrow> False | Some s \<Rightarrow> s \<noteq> [])"

definition channelSigString :: "string \<Rightarrow> string \<Rightarrow> string option \<Rightarrow> string" where
  \<comment> \<open>the local \<^verbatim>\<open>sigString\<close> of \<^verbatim>\<open>signChannel\<close>\<close>
  "channelSigString socketId channelName channelData =
     (if truthy channelData
      then socketId @ '':'' @ channelName @ '':'' @ the channelData
      else socketId @ '':'' @ channelName)"

definition signChannel ::
  "hmac_sha256 \<Rightarrow> string \<Rightarrow> string \<Rightarrow> string \<Rightarrow> string option \<Rightarrow> string" where
  "signChannel hmac secret socketId channelName channelData =
     digestHex (hmac secret (channelSigString socketId channelName channelData))"

definition signWebhookPayload :: "hmac_sha256 \<Rightarrow> string \<Rightarrow> string \<Rightarrow> string \<Rightarrow> string" where
  "signWebhookPayload hmac secret timestamp payload =
     (let input = timestamp @ ''.'' @ payload
      in digestHex (hmac secret input))"

section \<open>auth.ts: the channel authorizer\<close>

record ChannelAuthResponse =
  auth :: string
  channel_data :: "string option"

definition authenticateChannel ::
  "hmac_sha256 \<Rightarrow> string \<Rightarrow> string \<Rightarrow> string \<Rightarrow> string \<Rightarrow> string option \<Rightarrow> ChannelAuthResponse" where
  "authenticateChannel hmac secret key socketId channelName channelData =
     (let signature = signChannel hmac secret socketId channelName channelData;
          response = \<lparr>auth = key @ '':'' @ signature, channel_data = None\<rparr>
      in if channelData \<noteq> None then response\<lparr>channel_data := channelData\<rparr> else response)"

section \<open>webhook.ts: the webhook verifier\<close>

text \<open>
  The headers object is the list of its entries in the order \<^verbatim>\<open>Object.entries\<close> yields
  them. A value is a string, an array, or \<^verbatim>\<open>undefined\<close>; an array entry is a string or
  something else (the source tests \<^verbatim>\<open>typeof entry === "string"\<close> for each).
\<close>

datatype array_entry = StringEntry string | OtherEntry

datatype header_value = HString string | HArray "array_entry list" | HUndefined

type_synonym headers = "(string \<times> header_value) list"

fun find_string :: "array_entry list \<Rightarrow> string option" where
  \<comment> \<open>\<^verbatim>\<open>v.find((entry) => typeof entry === "string")\<close>\<close>
  "find_string [] = None"
| "find_string (StringEntry s # rest) = Some s"
| "find_string (OtherEntry # rest) = find_string rest"

fun getHeaderCaseInsensitive :: "headers \<Rightarrow> string \<Rightarrow> string option" where
  "getHeaderCaseInsensitive [] key = None"
| "getHeaderCaseInsensitive ((k, v) # rest) key =
     (if toLowerCase k = toLowerCase key
      then (case v of
              HString s \<Rightarrow> Some s
            | HArray entries \<Rightarrow> find_string entries
            | HUndefined \<Rightarrow> None)
      else getHeaderCaseInsensitive rest key)"

definition stripPrefix :: "string \<Rightarrow> string" where
  \<comment> \<open>the local \<^verbatim>\<open>actualSignature\<close>\<close>
  "stripPrefix signatureHeader =
     (if startsWith signatureHeader ''sha256='' then slice signatureHeader 7 else signatureHeader)"

definition tooOldOrFuture :: "string \<Rightarrow> int \<Rightarrow> int \<Rightarrow> bool" where
  \<comment> \<open>the body of \<^verbatim>\<open>if (maxAge !== undefined)\<close>: true where it returns false.
      \<open>dateNow\<close> is what \<^verbatim>\<open>Date.now()\<close> reads, in milliseconds. The age is the exact
      difference; the code subtracts doubles, which is the same comparison when the parsed
      timestamp, \<open>maxAge\<close> and \<open>dateNow\<close> are safe integers (rounding is monotone and leaves
      every safe integer and \<open>2 ^ 53\<close> itself unchanged), and can differ beyond them\<close>
  "tooOldOrFuture timestamp maxAge dateNow =
     (case parseInt10 timestamp of
        None \<Rightarrow> True
      | Some webhookTime \<Rightarrow>
          (let currentTime = dateNow div 1000;
               age = currentTime - webhookTime
           in age > maxAge \<or> age < 0))"

definition compareSignatures :: "string \<Rightarrow> string \<Rightarrow> js_error + bool" where
  \<comment> \<open>the body of the \<^verbatim>\<open>try\<close> block\<close>
  "compareSignatures actualSignature expectedSignature =
     (let actualBuffer = Buffer_from_hex actualSignature;
          expectedBuffer = Buffer_from_hex expectedSignature
      in if length actualBuffer \<noteq> length expectedBuffer then Inr False
         else timingSafeEqual actualBuffer expectedBuffer)"

definition verifyWebhook ::
  "hmac_sha256 \<Rightarrow> string \<Rightarrow> headers \<Rightarrow> string \<Rightarrow> int option \<Rightarrow> int \<Rightarrow> js_error + bool" where
  \<comment> \<open>\<open>Inl\<close> is an exception that leaves the function, \<open>Inr\<close> the verdict it returns.
      The last argument is the clock the function reads itself with \<^verbatim>\<open>Date.now()\<close>\<close>
  "verifyWebhook hmac secret hdrs body maxAge dateNow =
     (case getHeaderCaseInsensitive hdrs ''x-realtime-signature'' of
        None \<Rightarrow> Inr False
      | Some signatureHeader \<Rightarrow>
          if signatureHeader = [] then Inr False
          else
            (let actualSignature = stripPrefix signatureHeader in
             case getHeaderCaseInsensitive hdrs ''x-realtime-timestamp'' of
               None \<Rightarrow> Inr False
             | Some timestamp \<Rightarrow>
                 if timestamp = [] then Inr False
                 else if (case maxAge of None \<Rightarrow> False
                          | Some m \<Rightarrow> tooOldOrFuture timestamp m dateNow)
                 then Inr False
                 else
                   (let expectedSignature = signWebhookPayload hmac secret timestamp body in
                    case compareSignatures actualSignature expectedSignature of
                      Inl err \<Rightarrow> Inr False
                    | Inr verdict \<Rightarrow> Inr verdict)))"


section \<open>client.ts: validation in \<^verbatim>\<open>trigger\<close>\<close>

record TriggerParams =
  name :: string
  channel :: "string option"
  channels :: "string list option"
  data :: string
  socketId :: "string option"

datatype sdk_error =
    RealtimeError string
  | AuthenticationError string
  | ValidationError string
  | ApiError string int string

datatype json_value = JString string | JStringArray "string list"

record api_request =
  req_method :: string
  req_path :: string
  req_body :: "(string \<times> json_value) list"

definition trigger :: "string \<Rightarrow> TriggerParams \<Rightarrow> sdk_error + api_request" where
  \<comment> \<open>\<^verbatim>\<open>trigger\<close> up to its call of \<^verbatim>\<open>this.request\<close>: \<open>Inl\<close> is the error thrown before
      that call, \<open>Inr\<close> the call's arguments, with the body as the object handed to
      \<^verbatim>\<open>JSON.stringify\<close>. An array is truthy even when empty\<close>
  "trigger appId params =
     (if truthy (channel params) \<and> channels params \<noteq> None
      then Inl (ValidationError ''Cannot specify both 'channel' and 'channels' parameters'')
      else if \<not> truthy (channel params) \<and> channels params = None
      then Inl (ValidationError ''Must specify either 'channel' or 'channels' parameter'')
      else
        (let body0 = [(''name'', JString (name params)), (''data'', JString (data params))];
             body1 = (if truthy (channel params)
                      then body0 @ [(''channel'', JString (the (channel params)))] else body0);
             body2 = (case channels params of
                        Some cs \<Rightarrow> body1 @ [(''channels'', JStringArray cs)]
                      | None \<Rightarrow> body1);
             body3 = (if truthy (socketId params)
                      then body2 @ [(''socket_id'', JString (the (socketId params)))] else body2);
             path = ''/apps/'' @ appId @ ''/events''
         in Inr \<lparr>req_method = ''POST'', req_path = path, req_body = body3\<rparr>))"

section \<open>Canonical strings, as the specification words them\<close>

fun joinWith :: "string \<Rightarrow> string list \<Rightarrow> string" where
  "joinWith sep [] = []"
| "joinWith sep [x] = x"
| "joinWith sep (x # y # rest) = x @ sep @ joinWith sep (y # rest)"

definition isLowerHexChar :: "char \<Rightarrow> bool" where
  "isLowerHexChar c = (c \<in> set ''0123456789abcdef'')"

section \<open>Facts about the hex codec\<close>

lemma length_toHex: "length (toHex bs) = 2 * length bs"
  by (induction bs) (simp_all add: toHex_def)

lemma length_bytes_of_word_256: "length (bytes_of_word (w :: 256 word)) = 32"
  by (simp add: bytes_of_word_def)

lemma length_digestHex_256: "length (digestHex (w :: 256 word)) = 64"
  by (simp add: digestHex_def length_toHex length_bytes_of_word_256)

lemma lt16_cases: "n < 16 \<Longrightarrow> n \<in> set [0,1,2,3,4,5,6,7,8,9,10,11,12,13,14,15::nat]"
  by simp arith

lemma unhex_hexChar: "n < 16 \<Longrightarrow> unhex (hexChar n) = Some n"
  using lt16_cases [of n] by (auto simp: unhex_def hexChar_def)

lemma isLowerHexChar_hexChar: "n < 16 \<Longrightarrow> isLowerHexChar (hexChar n)"
  using lt16_cases [of n] by (auto simp: isLowerHexChar_def hexChar_def)

lemma unat_byte_div16: "unat (b :: byte) div 16 < 16"
  using unsigned_less [of b, where 'a = nat] by simp

lemma Buffer_from_hex_toHex_append:
  "Buffer_from_hex (toHex bs @ rest) = bs @ Buffer_from_hex rest"
  by (induction bs) (simp_all add: toHex_def unhex_hexChar unat_byte_div16)

lemma list_all_toHex: "list_all isLowerHexChar (toHex bs)"
  by (induction bs) (simp_all add: toHex_def isLowerHexChar_hexChar unat_byte_div16)

lemma digestHex_256_nonempty: "digestHex (w :: 256 word) \<noteq> []"
  using length_digestHex_256 [of w] by auto

lemma Buffer_from_hex_digest_append:
  "Buffer_from_hex (digestHex w @ rest) = bytes_of_word w @ Buffer_from_hex rest"
  by (simp add: digestHex_def Buffer_from_hex_toHex_append)

lemma Buffer_from_hex_digest: "Buffer_from_hex (digestHex w) = bytes_of_word w"
  using Buffer_from_hex_digest_append [of w "[]"] by simp

section \<open>Facts about the verifier's steps\<close>

lemma lowerHex_append_not_prefix:
  "s \<noteq> [] \<Longrightarrow> list_all isLowerHexChar s \<Longrightarrow> \<not> startsWith (s @ rest) ''sha256=''"
  by (cases s) (auto simp: startsWith_def isLowerHexChar_def)

lemma stripPrefix_digest_append:
  "stripPrefix (digestHex (w :: 256 word) @ rest) = digestHex w @ rest"
  using lowerHex_append_not_prefix [OF digestHex_256_nonempty, of w rest]
  by (simp add: stripPrefix_def digestHex_def list_all_toHex)

lemma stripPrefix_bare: "stripPrefix (digestHex (w :: 256 word)) = digestHex w"
  using stripPrefix_digest_append [of w "[]"] by simp

lemma stripPrefix_prefixed: "stripPrefix (''sha256='' @ s) = s"
  by (simp add: stripPrefix_def startsWith_def slice_def)

lemma signWebhookPayload_nonempty: "signWebhookPayload hmac secret ts body \<noteq> []"
  by (simp add: signWebhookPayload_def digestHex_256_nonempty)

lemma compareSignatures_eq:
  "compareSignatures a e = Inr (Buffer_from_hex a = Buffer_from_hex e)"
  by (auto simp: compareSignatures_def timingSafeEqual_def Let_def)

lemma toLowerCase_sig_key: "toLowerCase ''x-realtime-signature'' = ''x-realtime-signature''"
  by (simp add: toLowerCase_def toLowerCaseChar_def)

lemma toLowerCase_ts_key: "toLowerCase ''x-realtime-timestamp'' = ''x-realtime-timestamp''"
  by (simp add: toLowerCase_def toLowerCaseChar_def)

lemma lookup_sig:
  "getHeaderCaseInsensitive
     [(''x-realtime-signature'', HString s), (''x-realtime-timestamp'', HString t)]
     ''x-realtime-signature'' = Some s"
  by (simp add: toLowerCase_sig_key)

lemma lookup_ts:
  "getHeaderCaseInsensitive
     [(''x-realtime-signature'', HString s), (''x-realtime-timestamp'', HString t)]
     ''x-realtime-timestamp'' = Some t"
  by (simp add: toLowerCase_sig_key toLowerCase_ts_key)

lemma verifyWebhook_found:
  assumes "getHeaderCaseInsensitive hdrs ''x-realtime-signature'' = Some sigHeader"
    and "sigHeader \<noteq> []"
    and "getHeaderCaseInsensitive hdrs ''x-realtime-timestamp'' = Some ts"
    and "ts \<noteq> []"
  shows "verifyWebhook hmac secret hdrs body maxAge dateNow =
           Inr (\<not> (case maxAge of None \<Rightarrow> False | Some m \<Rightarrow> tooOldOrFuture ts m dateNow) \<and>
                Buffer_from_hex (stripPrefix sigHeader) =
                Buffer_from_hex (signWebhookPayload hmac secret ts body))"
  using assms by (simp add: verifyWebhook_def compareSignatures_eq)

lemma verifyWebhook_no_signature:
  "getHeaderCaseInsensitive hdrs ''x-realtime-signature'' = None \<or>
   getHeaderCaseInsensitive hdrs ''x-realtime-signature'' = Some [] \<Longrightarrow>
   verifyWebhook hmac secret hdrs body maxAge dateNow = Inr False"
  by (auto simp: verifyWebhook_def)

lemma verifyWebhook_no_timestamp:
  "getHeaderCaseInsensitive hdrs ''x-realtime-timestamp'' = None \<or>
   getHeaderCaseInsensitive hdrs ''x-realtime-timestamp'' = Some [] \<Longrightarrow>
   verifyWebhook hmac secret hdrs body maxAge dateNow = Inr False"
  by (cases "getHeaderCaseInsensitive hdrs ''x-realtime-signature''")
     (auto simp: verifyWebhook_def)

lemma verifyWebhook_stale:
  assumes "getHeaderCaseInsensitive hdrs ''x-realtime-timestamp'' = Some ts"
    and "tooOldOrFuture ts m dateNow"
  shows "verifyWebhook hmac secret hdrs body (Some m) dateNow = Inr False"
proof (cases "getHeaderCaseInsensitive hdrs ''x-realtime-signature''")
  case None
  then show ?thesis by (simp add: verifyWebhook_no_signature)
next
  case sg: (Some sigHeader)
  show ?thesis
  proof (cases "sigHeader = [] \<or> ts = []")
    case True
    then show ?thesis
      using sg assms(1) verifyWebhook_no_signature verifyWebhook_no_timestamp by blast
  next
    case False
    then show ?thesis
      using verifyWebhook_found [OF sg _ assms(1)] assms(2) by simp
  qed
qed

section \<open>The webhook round trip\<close>

text \<open>
  Claim C1, as amended. For every secret, every body and every non-empty timestamp string,
  the signature that \<^verbatim>\<open>signWebhookPayload\<close> produces, sent in the
  \<^verbatim>\<open>x-realtime-signature\<close> header either bare or behind the literal \<^verbatim>\<open>sha256=\<close>, next to
  the timestamp in the \<^verbatim>\<open>x-realtime-timestamp\<close> header, is accepted by
  \<^verbatim>\<open>verifyWebhook\<close> when no maxAge is given: the verdict is true, whatever the clock reads.
\<close>

theorem webhook_roundtrip:
  assumes "ts \<noteq> []"
  shows "verifyWebhook hmac secret
           [(''x-realtime-signature'', HString (signWebhookPayload hmac secret ts body)),
            (''x-realtime-timestamp'', HString ts)] body None dateNow = Inr True \<and>
         verifyWebhook hmac secret
           [(''x-realtime-signature'',
             HString (''sha256='' @ signWebhookPayload hmac secret ts body)),
            (''x-realtime-timestamp'', HString ts)] body None dateNow = Inr True"
proof
  show "verifyWebhook hmac secret
           [(''x-realtime-signature'', HString (signWebhookPayload hmac secret ts body)),
            (''x-realtime-timestamp'', HString ts)] body None dateNow = Inr True"
    using verifyWebhook_found [OF lookup_sig signWebhookPayload_nonempty lookup_ts assms]
    by (simp add: signWebhookPayload_def stripPrefix_bare)
  show "verifyWebhook hmac secret
           [(''x-realtime-signature'',
             HString (''sha256='' @ signWebhookPayload hmac secret ts body)),
            (''x-realtime-timestamp'', HString ts)] body None dateNow = Inr True"
    using verifyWebhook_found [OF lookup_sig _ lookup_ts assms,
        of "''sha256='' @ signWebhookPayload hmac secret ts body"]
    by (simp add: stripPrefix_prefixed del: append.simps)
qed

text \<open>
  The round trip at the timestamp \<^verbatim>\<open>"1700000000"\<close>, for whatever function computes the
  HMAC.
\<close>

theorem webhook_roundtrip_witness:
  "\<forall>hmac.
     verifyWebhook hmac ''my-secret-key''
       [(''x-realtime-signature'',
         HString (signWebhookPayload hmac ''my-secret-key'' ''1700000000'' ''{}'')),
        (''x-realtime-timestamp'', HString ''1700000000'')] ''{}'' None 0 = Inr True \<and>
     verifyWebhook hmac ''my-secret-key''
       [(''x-realtime-signature'',
         HString (''sha256='' @ signWebhookPayload hmac ''my-secret-key'' ''1700000000'' ''{}'')),
        (''x-realtime-timestamp'', HString ''1700000000'')] ''{}'' None 0 = Inr True"
proof
  fix hmac :: hmac_sha256
  have nonempty: "''1700000000'' \<noteq> []" by simp
  show "verifyWebhook hmac ''my-secret-key''
       [(''x-realtime-signature'',
         HString (signWebhookPayload hmac ''my-secret-key'' ''1700000000'' ''{}'')),
        (''x-realtime-timestamp'', HString ''1700000000'')] ''{}'' None 0 = Inr True \<and>
     verifyWebhook hmac ''my-secret-key''
       [(''x-realtime-signature'',
         HString (''sha256='' @ signWebhookPayload hmac ''my-secret-key'' ''1700000000'' ''{}'')),
        (''x-realtime-timestamp'', HString ''1700000000'')] ''{}'' None 0 = Inr True"
    by (rule webhook_roundtrip [OF nonempty])
qed

text \<open>
  Claim C1 as it was written covers every timestamp string. It fails at the empty one:
  \<^verbatim>\<open>if (!timestamp) return false\<close> treats an empty header value as a missing header, so
  the signature of the empty timestamp is rejected.
\<close>

theorem webhook_roundtrip_empty_timestamp:
  "\<forall>hmac.
     verifyWebhook hmac ''my-secret-key''
       [(''x-realtime-signature'', HString (signWebhookPayload hmac ''my-secret-key'' [] ''{}'')),
        (''x-realtime-timestamp'', HString [])] ''{}'' None 0 = Inr False"
  using verifyWebhook_no_timestamp lookup_ts by blast

section \<open>Decoding the claimed signature\<close>

lemma verifyWebhook_rejects_wrong_length:
  assumes "getHeaderCaseInsensitive hdrs ''x-realtime-signature'' = Some sigHeader"
    and "length (Buffer_from_hex (stripPrefix sigHeader)) \<noteq> 32"
  shows "verifyWebhook hmac secret hdrs body maxAge dateNow = Inr False"
proof (cases "getHeaderCaseInsensitive hdrs ''x-realtime-timestamp''")
  case None
  then show ?thesis by (simp add: verifyWebhook_no_timestamp)
next
  case ts: (Some ts)
  have expected: "length (Buffer_from_hex (signWebhookPayload hmac secret ts body)) = 32"
    by (simp add: signWebhookPayload_def Buffer_from_hex_digest length_bytes_of_word_256)
  show ?thesis
  proof (cases "sigHeader = [] \<or> ts = []")
    case True
    then show ?thesis
      using assms(1) ts verifyWebhook_no_signature verifyWebhook_no_timestamp by blast
  next
    case False
    then show ?thesis
      using verifyWebhook_found [OF assms(1) _ ts] assms(2) expected by auto
  qed
qed

text \<open>
  Claim C3 says that a claimed signature that is not valid hex (odd length, or a character
  that is no hex digit) is always rejected. The code decodes with \<^verbatim>\<open>Buffer.from\<close>, which
  does not fail on such a string but keeps the bytes decoded so far; only the decoded length
  is then checked. So a valid signature followed by \<^verbatim>\<open>zz\<close>, or by one more digit, decodes to
  the same 32 bytes as the valid signature, reaches the comparison and is accepted.
\<close>

theorem verifyWebhook_accepts_trailing_garbage:
  "verifyWebhook hmac secret
     [(''x-realtime-signature'',
       HString (signWebhookPayload hmac secret ''1700000000'' body @ ''zz'')),
      (''x-realtime-timestamp'', HString ''1700000000'')] body None dateNow = Inr True \<and>
   verifyWebhook hmac secret
     [(''x-realtime-signature'',
       HString (signWebhookPayload hmac secret ''1700000000'' body @ ''0'')),
      (''x-realtime-timestamp'', HString ''1700000000'')] body None dateNow = Inr True"
proof -
  have ts: "''1700000000'' \<noteq> []" by simp
  have zz: "Buffer_from_hex ''zz'' = []" by (simp add: unhex_def)
  have odd: "Buffer_from_hex ''0'' = []" by simp
  have ne: "signWebhookPayload hmac secret ''1700000000'' body @ rest \<noteq> []" for rest
    using signWebhookPayload_nonempty by simp
  have "verifyWebhook hmac secret
     [(''x-realtime-signature'',
       HString (signWebhookPayload hmac secret ''1700000000'' body @ rest)),
      (''x-realtime-timestamp'', HString ''1700000000'')] body None dateNow =
     Inr (Buffer_from_hex rest = [])" for rest
    using verifyWebhook_found [OF lookup_sig ne lookup_ts ts, where maxAge = None]
    by (simp add: signWebhookPayload_def stripPrefix_digest_append
        Buffer_from_hex_digest_append Buffer_from_hex_digest)
  then show ?thesis using zz odd by simp
qed

section \<open>Freshness\<close>

lemma verifyWebhook_fresh:
  assumes ts: "getHeaderCaseInsensitive hdrs ''x-realtime-timestamp'' = Some ts"
    and fresh: "\<not> tooOldOrFuture ts m dateNow"
  shows "verifyWebhook hmac secret hdrs body (Some m) dateNow =
         verifyWebhook hmac secret hdrs body None dateNow"
proof (cases "getHeaderCaseInsensitive hdrs ''x-realtime-signature''")
  case None
  then show ?thesis by (simp add: verifyWebhook_no_signature)
next
  case sg: (Some sigHeader)
  show ?thesis
  proof (cases "sigHeader = [] \<or> ts = []")
    case True
    then have "verifyWebhook hmac secret hdrs body mx dateNow = Inr False" for mx
      using sg ts verifyWebhook_no_signature verifyWebhook_no_timestamp by blast
    then show ?thesis by simp
  next
    case False
    then show ?thesis
      using verifyWebhook_found [OF sg _ ts] fresh by simp
  qed
qed

lemma parseInt10_1700000000: "parseInt10 ''1700000000'' = Some 1700000000"
  by (simp add: parseInt10_def isStrWhiteSpaceChar_def isDecimalDigit_def digitsValue_def)

lemma parseInt10_not_a_number: "parseInt10 ''not-a-number'' = None"
  by (simp add: parseInt10_def isStrWhiteSpaceChar_def isDecimalDigit_def digitsValue_def)

lemma isSafeInteger_examples:
  "isSafeInteger 300" "isSafeInteger 1700000000" "isSafeInteger 1700000301000"
  "isSafeInteger 1699999999999" "isSafeInteger 1700000300999" "isSafeInteger 1700000000000"
  "isSafeInteger 1700000100000" "isSafeInteger 1700000400000"
  by (simp_all add: isSafeInteger_def)

text \<open>
  Claim C4. Let \<open>ts\<close> be the value of the timestamp header. With \<open>maxAge\<close> supplied: if
  \<^verbatim>\<open>parseInt(ts, 10)\<close> is \<^verbatim>\<open>NaN\<close> the verdict is false; if it is \<open>t\<close> and
  \<open>age = floor(Date.now() / 1000) - t\<close> is above \<open>maxAge\<close> or below zero the verdict is false;
  if \<open>0 \<le> age \<le> maxAge\<close> (both ends included) the check lets the call through, so the verdict
  is the one of the call without \<open>maxAge\<close>. The two statements about the age are made for
  safe integers \<open>t\<close>, \<open>maxAge\<close> and clock, where the code's doubles compute this age.
  Without \<open>maxAge\<close> nothing is parsed: the verdict is the comparison of the decoded claimed
  signature with the decoded signature of the raw header string \<open>ts\<close>, numeric or not.
\<close>

theorem verifyWebhook_freshness:
  "(getHeaderCaseInsensitive hdrs ''x-realtime-timestamp'' = Some ts \<and> parseInt10 ts = None
      \<longrightarrow> verifyWebhook hmac secret hdrs body (Some maxAge) dateNow = Inr False) \<and>
   (getHeaderCaseInsensitive hdrs ''x-realtime-timestamp'' = Some ts \<and> parseInt10 ts = Some t \<and>
    isSafeInteger t \<and> isSafeInteger maxAge \<and> isSafeInteger dateNow \<and>
    (dateNow div 1000 - t > maxAge \<or> dateNow div 1000 - t < 0)
      \<longrightarrow> verifyWebhook hmac secret hdrs body (Some maxAge) dateNow = Inr False) \<and>
   (getHeaderCaseInsensitive hdrs ''x-realtime-timestamp'' = Some ts \<and> parseInt10 ts = Some t \<and>
    isSafeInteger t \<and> isSafeInteger maxAge \<and> isSafeInteger dateNow \<and>
    0 \<le> dateNow div 1000 - t \<and> dateNow div 1000 - t \<le> maxAge
      \<longrightarrow> verifyWebhook hmac secret hdrs body (Some maxAge) dateNow =
          verifyWebhook hmac secret hdrs body None dateNow) \<and>
   (getHeaderCaseInsensitive hdrs ''x-realtime-signature'' = Some sigHeader \<and> sigHeader \<noteq> [] \<and>
    getHeaderCaseInsensitive hdrs ''x-realtime-timestamp'' = Some ts \<and> ts \<noteq> []
      \<longrightarrow> verifyWebhook hmac secret hdrs body None dateNow =
          Inr (Buffer_from_hex (stripPrefix sigHeader) =
               Buffer_from_hex (signWebhookPayload hmac secret ts body)))"
proof (intro conjI impI)
  assume "getHeaderCaseInsensitive hdrs ''x-realtime-timestamp'' = Some ts \<and> parseInt10 ts = None"
  then show "verifyWebhook hmac secret hdrs body (Some maxAge) dateNow = Inr False"
    using verifyWebhook_stale [of hdrs ts maxAge dateNow] by (simp add: tooOldOrFuture_def)
next
  assume "getHeaderCaseInsensitive hdrs ''x-realtime-timestamp'' = Some ts \<and> parseInt10 ts = Some t \<and>
    isSafeInteger t \<and> isSafeInteger maxAge \<and> isSafeInteger dateNow \<and>
    (dateNow div 1000 - t > maxAge \<or> dateNow div 1000 - t < 0)"
  then show "verifyWebhook hmac secret hdrs body (Some maxAge) dateNow = Inr False"
    using verifyWebhook_stale [of hdrs ts maxAge dateNow] by (simp add: tooOldOrFuture_def)
next
  assume "getHeaderCaseInsensitive hdrs ''x-realtime-timestamp'' = Some ts \<and> parseInt10 ts = Some t \<and>
    isSafeInteger t \<and> isSafeInteger maxAge \<and> isSafeInteger dateNow \<and>
    0 \<le> dateNow div 1000 - t \<and> dateNow div 1000 - t \<le> maxAge"
  then show "verifyWebhook hmac secret hdrs body (Some maxAge) dateNow =
          verifyWebhook hmac secret hdrs body None dateNow"
    using verifyWebhook_fresh [of hdrs ts maxAge dateNow] by (simp add: tooOldOrFuture_def)
next
  assume "getHeaderCaseInsensitive hdrs ''x-realtime-signature'' = Some sigHeader \<and> sigHeader \<noteq> [] \<and>
    getHeaderCaseInsensitive hdrs ''x-realtime-timestamp'' = Some ts \<and> ts \<noteq> []"
  then show "verifyWebhook hmac secret hdrs body None dateNow =
          Inr (Buffer_from_hex (stripPrefix sigHeader) =
               Buffer_from_hex (signWebhookPayload hmac secret ts body))"
    using verifyWebhook_found [of hdrs sigHeader ts hmac secret body None dateNow] by simp
qed

text \<open>
  The four parts at concrete calls with \<open>maxAge = 300\<close>: a timestamp that is no number, one
  that is 301 seconds old, one that is a second ahead of the clock, one exactly 300 seconds old
  and one of age 0 (both accepted), and the non-numeric timestamp accepted when \<open>maxAge\<close> is
  omitted.
\<close>

theorem verifyWebhook_freshness_witness:
  "\<forall>hmac.
     verifyWebhook hmac ''my-secret-key''
       [(''x-realtime-signature'',
         HString (signWebhookPayload hmac ''my-secret-key'' ''not-a-number'' ''{}'')),
        (''x-realtime-timestamp'', HString ''not-a-number'')] ''{}'' (Some 300) 1700000100000
       = Inr False \<and>
     verifyWebhook hmac ''my-secret-key''
       [(''x-realtime-signature'',
         HString (signWebhookPayload hmac ''my-secret-key'' ''1700000000'' ''{}'')),
        (''x-realtime-timestamp'', HString ''1700000000'')] ''{}'' (Some 300) 1700000301000
       = Inr False \<and>
     verifyWebhook hmac ''my-secret-key''
       [(''x-realtime-signature'',
         HString (signWebhookPayload hmac ''my-secret-key'' ''1700000000'' ''{}'')),
        (''x-realtime-timestamp'', HString ''1700000000'')] ''{}'' (Some 300) 1699999999999
       = Inr False \<and>
     verifyWebhook hmac ''my-secret-key''
       [(''x-realtime-signature'',
         HString (signWebhookPayload hmac ''my-secret-key'' ''1700000000'' ''{}'')),
        (''x-realtime-timestamp'', HString ''1700000000'')] ''{}'' (Some 300) 1700000300999
       = Inr True \<and>
     verifyWebhook hmac ''my-secret-key''
       [(''x-realtime-signature'',
         HString (signWebhookPayload hmac ''my-secret-key'' ''1700000000'' ''{}'')),
        (''x-realtime-timestamp'', HString ''1700000000'')] ''{}'' (Some 300) 1700000000000
       = Inr True \<and>
     verifyWebhook hmac ''my-secret-key''
       [(''x-realtime-signature'',
         HString (signWebhookPayload hmac ''my-secret-key'' ''not-a-number'' ''{}'')),
        (''x-realtime-timestamp'', HString ''not-a-number'')] ''{}'' None 1700000100000
       = Inr True"
proof
  fix hmac :: hmac_sha256
  define good where "good = signWebhookPayload hmac ''my-secret-key'' ''1700000000'' ''{}''"
  define odd where "odd = signWebhookPayload hmac ''my-secret-key'' ''not-a-number'' ''{}''"
  have strip: "stripPrefix good = good" "stripPrefix odd = odd"
    by (simp_all add: good_def odd_def signWebhookPayload_def stripPrefix_bare)
  have nonempty: "good \<noteq> []" "odd \<noteq> []"
    by (simp_all add: good_def odd_def signWebhookPayload_nonempty)
  note nan_rule = verifyWebhook_freshness [THEN conjunct1, rule_format]
  note stale_rule = verifyWebhook_freshness [THEN conjunct2, THEN conjunct1, rule_format]
  note fresh_rule =
    verifyWebhook_freshness [THEN conjunct2, THEN conjunct2, THEN conjunct1, rule_format]
  note raw_rule =
    verifyWebhook_freshness [THEN conjunct2, THEN conjunct2, THEN conjunct2, rule_format]
  have ts_nonempty: "''1700000000'' \<noteq> []" "''not-a-number'' \<noteq> []"
    by simp_all
  have too_old: "isSafeInteger 1700000000 \<and> isSafeInteger 300 \<and>
      isSafeInteger 1700000301000 \<and>
      ((300::int) < 1700000301000 div 1000 - 1700000000 \<or>
       (1700000301000::int) div 1000 - 1700000000 < 0)"
    by (simp add: isSafeInteger_examples)
  have too_new: "isSafeInteger 1700000000 \<and> isSafeInteger 300 \<and>
      isSafeInteger 1699999999999 \<and>
      ((300::int) < 1699999999999 div 1000 - 1700000000 \<or>
       (1699999999999::int) div 1000 - 1700000000 < 0)"
    by (simp add: isSafeInteger_examples)
  have at_max: "isSafeInteger 1700000000 \<and> isSafeInteger 300 \<and>
      isSafeInteger 1700000300999 \<and>
      (0::int) \<le> 1700000300999 div 1000 - 1700000000 \<and>
      (1700000300999::int) div 1000 - 1700000000 \<le> 300"
    by (simp add: isSafeInteger_examples)
  have at_zero: "isSafeInteger 1700000000 \<and> isSafeInteger 300 \<and>
      isSafeInteger 1700000000000 \<and>
      (0::int) \<le> 1700000000000 div 1000 - 1700000000 \<and>
      (1700000000000::int) div 1000 - 1700000000 \<le> 300"
    by (simp add: isSafeInteger_examples)
  have nan: "verifyWebhook hmac ''my-secret-key''
       [(''x-realtime-signature'', HString odd),
        (''x-realtime-timestamp'', HString ''not-a-number'')] ''{}'' (Some 300) 1700000100000
       = Inr False"
    by (rule nan_rule [OF conjI [OF lookup_ts parseInt10_not_a_number]])
  have old: "verifyWebhook hmac ''my-secret-key''
       [(''x-realtime-signature'', HString good),
        (''x-realtime-timestamp'', HString ''1700000000'')] ''{}'' (Some 300) 1700000301000
       = Inr False"
    by (rule stale_rule [OF conjI [OF lookup_ts conjI [OF parseInt10_1700000000 too_old]]])
  have future: "verifyWebhook hmac ''my-secret-key''
       [(''x-realtime-signature'', HString good),
        (''x-realtime-timestamp'', HString ''1700000000'')] ''{}'' (Some 300) 1699999999999
       = Inr False"
    by (rule stale_rule [OF conjI [OF lookup_ts conjI [OF parseInt10_1700000000 too_new]]])
  have plain: "verifyWebhook hmac ''my-secret-key''
       [(''x-realtime-signature'', HString good),
        (''x-realtime-timestamp'', HString ''1700000000'')] ''{}'' None dateNow
       = Inr True" for dateNow
    using raw_rule [OF conjI [OF lookup_sig conjI [OF nonempty(1)
            conjI [OF lookup_ts ts_nonempty(1)]]], of hmac "''my-secret-key''" "''{}''" dateNow]
    by (simp add: strip good_def [symmetric])
  have edge: "verifyWebhook hmac ''my-secret-key''
       [(''x-realtime-signature'', HString good),
        (''x-realtime-timestamp'', HString ''1700000000'')] ''{}'' (Some 300) 1700000300999
       = Inr True"
    using fresh_rule [OF conjI [OF lookup_ts conjI [OF parseInt10_1700000000 at_max]]] plain
    by simp
  have zero: "verifyWebhook hmac ''my-secret-key''
       [(''x-realtime-signature'', HString good),
        (''x-realtime-timestamp'', HString ''1700000000'')] ''{}'' (Some 300) 1700000000000
       = Inr True"
    using fresh_rule [OF conjI [OF lookup_ts conjI [OF parseInt10_1700000000 at_zero]]] plain
    by simp
  have raw: "verifyWebhook hmac ''my-secret-key''
       [(''x-realtime-signature'', HString odd),
        (''x-realtime-timestamp'', HString ''not-a-number'')] ''{}'' None 1700000100000
       = Inr True"
    using raw_rule [OF conjI [OF lookup_sig conjI [OF nonempty(2)
            conjI [OF lookup_ts ts_nonempty(2)]]], of hmac "''my-secret-key''" "''{}''" 1700000100000]
    by (simp add: strip odd_def [symmetric])
  show "verifyWebhook hmac ''my-secret-key''
       [(''x-realtime-signature'',
         HString (signWebhookPayload hmac ''my-secret-key'' ''not-a-number'' ''{}'')),
        (''x-realtime-timestamp'', HString ''not-a-number'')] ''{}'' (Some 300) 1700000100000
       = Inr False \<and>
     verifyWebhook hmac ''my-secret-key''
       [(''x-realtime-signature'',
         HString (signWebhookPayload hmac ''my-secret-key'' ''1700000000'' ''{}'')),
        (''x-realtime-timestamp'', HString ''1700000000'')] ''{}'' (Some 300) 1700000301000
       = Inr False \<and>
     verifyWebhook hmac ''my-secret-key''
       [(''x-realtime-signature'',
         HString (signWebhookPayload hmac ''my-secret-key'' ''1700000000'' ''{}'')),
        (''x-realtime-timestamp'', HString ''1700000000'')] ''{}'' (Some 300) 1699999999999
       = Inr False \<and>
     verifyWebhook hmac ''my-secret-key''
       [(''x-realtime-signature'',
         HString (signWebhookPayload hmac ''my-secret-key'' ''1700000000'' ''{}'')),
        (''x-realtime-timestamp'', HString ''1700000000'')] ''{}'' (Some 300) 1700000300999
       = Inr True \<and>
     verifyWebhook hmac ''my-secret-key''
       [(''x-realtime-signature'',
         HString (signWebhookPayload hmac ''my-secret-key'' ''1700000000'' ''{}'')),
        (''x-realtime-timestamp'', HString ''1700000000'')] ''{}'' (Some 300) 1700000000000
       = Inr True \<and>
     verifyWebhook hmac ''my-secret-key''
       [(''x-realtime-signature'',
         HString (signWebhookPayload hmac ''my-secret-key'' ''not-a-number'' ''{}'')),
        (''x-realtime-timestamp'', HString ''not-a-number'')] ''{}'' None 1700000100000
       = Inr True"
    using nan old future edge zero raw unfolding good_def odd_def by blast
qed

section \<open>The channel authorizer\<close>

text \<open>
  Claim C5 says that a channel payload supplied as the empty string is signed like any other
  payload, as \<^verbatim>\<open>{socketId}:{channelName}:\<close>. \<^verbatim>\<open>authenticateChannel\<close> does treat it as
  supplied (\<^verbatim>\<open>channelData !== undefined\<close>) and echoes it, but \<^verbatim>\<open>signChannel\<close> tests
  \<^verbatim>\<open>channelData ? ... : ...\<close>, where the empty string is falsy: the string that is signed
  is \<^verbatim>\<open>{socketId}:{channelName}\<close>, which is not the colon-joined string of the three
  fields.
\<close>

theorem authenticateChannel_empty_payload:
  "authenticateChannel hmac secret key socket_id channel_name (Some []) =
     \<lparr>auth = key @ '':'' @ digestHex (hmac secret (socket_id @ '':'' @ channel_name)),
      channel_data = Some []\<rparr> \<and>
   channelSigString socket_id channel_name (Some []) \<noteq>
     joinWith '':'' [socket_id, channel_name, []]"
  by (simp add: authenticateChannel_def signChannel_def channelSigString_def truthy_def)

text \<open>
  Claim C10. With the empty string as channel payload the \<open>auth\<close> value, the signature and
  the signed string are those of the call without a payload, and the response still carries
  \<^verbatim>\<open>channel_data: ""\<close> (where the call without a payload has no such field).
\<close>

theorem authenticateChannel_empty_same_as_omitted:
  "auth (authenticateChannel hmac secret key socket_id channel_name (Some [])) =
   auth (authenticateChannel hmac secret key socket_id channel_name None) \<and>
   signChannel hmac secret socket_id channel_name (Some []) =
   signChannel hmac secret socket_id channel_name None \<and>
   channelSigString socket_id channel_name (Some []) = joinWith '':'' [socket_id, channel_name] \<and>
   channel_data (authenticateChannel hmac secret key socket_id channel_name (Some [])) = Some [] \<and>
   channel_data (authenticateChannel hmac secret key socket_id channel_name None) = None"
  by (simp add: authenticateChannel_def signChannel_def channelSigString_def truthy_def)

section \<open>The request signer\<close>

lemma length_bytes_of_word_128: "length (bytes_of_word (w :: 128 word)) = 16"
  by (simp add: bytes_of_word_def)

lemma length_md5Hex: "length (md5Hex md5 body) = 32"
  by (simp add: md5Hex_def digestHex_def length_toHex length_bytes_of_word_128)

lemma numberToString_1700000000: "numberToString 1700000000 = ''1700000000''"
  by (simp add: numberToString_def decimalDigits.simps digitChar_def)

text \<open>
  Claim C6. For a timestamp that is a safe integer (the Unix seconds the transport passes
  are), \<^verbatim>\<open>signRequest\<close> is the hex digest of the HMAC, under the secret, of the four
  fields timestamp, method, path and body digest joined by newlines, where the timestamp is
  printed in decimal and the body digest is the empty string for the empty body and the hex
  MD5 digest of the body otherwise. Digests are printed in lowercase hex: 64 characters for the
  signature, 32 for the MD5 digest (so the digest of the empty body would not be the empty
  string). The request \<^verbatim>\<open>GET /apps/123/channels\<close> with empty body at 1700000000 signs the
  string \<^verbatim>\<open>"1700000000\nGET\n/apps/123/channels\n"\<close>.
\<close>

theorem signRequest_canonical:
  "(isSafeInteger timestamp \<longrightarrow>
      signRequest hmac md5 secret method path body timestamp =
        digestHex (hmac secret
          (joinWith ''\<newline>''
             [numberToString timestamp, method, path,
              if body = [] then [] else digestHex (md5 body)]))) \<and>
   length (signRequest hmac md5 secret method path body timestamp) = 64 \<and>
   list_all isLowerHexChar (signRequest hmac md5 secret method path body timestamp) \<and>
   length (md5Hex md5 body) = 32 \<and>
   list_all isLowerHexChar (md5Hex md5 body) \<and>
   signRequest hmac md5 secret ''GET'' ''/apps/123/channels'' [] 1700000000 =
     digestHex (hmac secret ''1700000000\<newline>GET\<newline>/apps/123/channels\<newline>'')"
proof (intro conjI impI)
  show "signRequest hmac md5 secret method path body timestamp =
     digestHex (hmac secret
       (joinWith ''\<newline>''
          [numberToString timestamp, method, path,
           if body = [] then [] else digestHex (md5 body)]))"
    by (simp add: signRequest_def md5Hex_def)
  show "length (signRequest hmac md5 secret method path body timestamp) = 64"
    by (simp add: signRequest_def Let_def length_digestHex_256)
  show "list_all isLowerHexChar (signRequest hmac md5 secret method path body timestamp)"
    by (simp add: signRequest_def Let_def digestHex_def list_all_toHex)
  show "length (md5Hex md5 body) = 32"
    by (rule length_md5Hex)
  show "list_all isLowerHexChar (md5Hex md5 body)"
    by (simp add: md5Hex_def digestHex_def list_all_toHex)
  show "signRequest hmac md5 secret ''GET'' ''/apps/123/channels'' [] 1700000000 =
     digestHex (hmac secret ''1700000000\<newline>GET\<newline>/apps/123/channels\<newline>'')"
    by (simp add: signRequest_def numberToString_1700000000)
qed

text \<open>
  The request \<^verbatim>\<open>POST /apps/123/events\<close> with the body \<^verbatim>\<open>{"name":"test"}\<close> at the safe
  integer 1700000000: the signed string ends in the MD5 digest of the body.
\<close>

theorem signRequest_canonical_witness:
  "\<forall>hmac md5.
     isSafeInteger 1700000000 \<and>
     signRequest hmac md5 ''my-secret-key'' ''POST'' ''/apps/123/events'' ''{\"name\":\"test\"}''
       1700000000 =
     digestHex (hmac ''my-secret-key''
       (''1700000000\<newline>POST\<newline>/apps/123/events\<newline>'' @
        digestHex (md5 ''{\"name\":\"test\"}'')))"
proof (intro allI conjI)
  fix hmac :: hmac_sha256 and md5 :: md5_hash
  show safe: "isSafeInteger 1700000000"
    by (rule isSafeInteger_examples)
  have "signRequest hmac md5 ''my-secret-key'' ''POST'' ''/apps/123/events''
          ''{\"name\":\"test\"}'' 1700000000 =
        digestHex (hmac ''my-secret-key''
          (joinWith ''\<newline>''
             [numberToString 1700000000, ''POST'', ''/apps/123/events'',
              if ''{\"name\":\"test\"}'' = [] then [] else digestHex (md5 ''{\"name\":\"test\"}'')]))"
    by (rule signRequest_canonical [THEN conjunct1, rule_format, OF safe])
  then show "signRequest hmac md5 ''my-secret-key'' ''POST'' ''/apps/123/events''
       ''{\"name\":\"test\"}'' 1700000000 =
     digestHex (hmac ''my-secret-key''
       (''1700000000\<newline>POST\<newline>/apps/123/events\<newline>'' @
        digestHex (md5 ''{\"name\":\"test\"}'')))"
    by (simp add: numberToString_1700000000)
qed

section \<open>Totality\<close>








section \<open>The clock\<close>

lemma tooOldOrFuture_seconds:
  "t1 div 1000 = t2 div 1000 \<Longrightarrow> tooOldOrFuture ts m t1 = tooOldOrFuture ts m t2"
  by (simp add: tooOldOrFuture_def Let_def split: option.split)

lemma verifyWebhook_same_freshness:
  assumes "\<And>ts. (case maxAge of None \<Rightarrow> False | Some m \<Rightarrow> tooOldOrFuture ts m t1) =
                (case maxAge of None \<Rightarrow> False | Some m \<Rightarrow> tooOldOrFuture ts m t2)"
  shows "verifyWebhook hmac secret hdrs body maxAge t1 =
         verifyWebhook hmac secret hdrs body maxAge t2"
proof (cases "getHeaderCaseInsensitive hdrs ''x-realtime-signature''")
  case None
  then show ?thesis by (simp add: verifyWebhook_no_signature)
next
  case sg: (Some sigHeader)
  show ?thesis
  proof (cases "getHeaderCaseInsensitive hdrs ''x-realtime-timestamp''")
    case None
    then show ?thesis by (simp add: verifyWebhook_no_timestamp)
  next
    case ts: (Some ts)
    show ?thesis
    proof (cases "sigHeader = [] \<or> ts = []")
      case True
      then have "verifyWebhook hmac secret hdrs body maxAge t = Inr False" for t
        using sg ts verifyWebhook_no_signature verifyWebhook_no_timestamp by blast
      then show ?thesis by simp
    next
      case False
      then show ?thesis
        using verifyWebhook_found [OF sg _ ts] assms [of ts] by simp
    qed
  qed
qed

lemma clock_unread_without_maxAge:
  "verifyWebhook hmac secret hdrs body None t1 = verifyWebhook hmac secret hdrs body None t2"
  by (rule verifyWebhook_same_freshness) simp

lemma clock_read_in_seconds:
  assumes "t1 div 1000 = t2 div 1000"
  shows "verifyWebhook hmac secret hdrs body maxAge t1 =
         verifyWebhook hmac secret hdrs body maxAge t2"
  by (rule verifyWebhook_same_freshness)
     (simp add: tooOldOrFuture_seconds [OF assms] split: option.split)

text \<open>
  Claim C8, as amended. The verifier reads the clock itself (\<^verbatim>\<open>Date.now()\<close>); no caller
  can supply it. The verdict is a function of the arguments and of that reading, through its
  whole seconds only; when \<open>maxAge\<close> is omitted the reading does not matter at all.
\<close>

theorem verifyWebhook_clock:
  "verifyWebhook hmac secret hdrs body None t1 = verifyWebhook hmac secret hdrs body None t2 \<and>
   (t1 div 1000 = t2 div 1000 \<longrightarrow>
      verifyWebhook hmac secret hdrs body maxAge t1 = verifyWebhook hmac secret hdrs body maxAge t2)"
  using clock_unread_without_maxAge clock_read_in_seconds by blast

text \<open>Two readings of the clock within one second give one verdict.\<close>

theorem verifyWebhook_clock_witness:
  "\<forall>hmac.
     verifyWebhook hmac ''my-secret-key''
       [(''x-realtime-signature'',
         HString (signWebhookPayload hmac ''my-secret-key'' ''1700000000'' ''{}'')),
        (''x-realtime-timestamp'', HString ''1700000000'')] ''{}'' (Some 300) 1700000100000 =
     verifyWebhook hmac ''my-secret-key''
       [(''x-realtime-signature'',
         HString (signWebhookPayload hmac ''my-secret-key'' ''1700000000'' ''{}'')),
        (''x-realtime-timestamp'', HString ''1700000000'')] ''{}'' (Some 300) 1700000100999"
proof
  fix hmac :: hmac_sha256
  have same_second: "(1700000100000 :: int) div 1000 = 1700000100999 div 1000"
    by simp
  show "verifyWebhook hmac ''my-secret-key''
       [(''x-realtime-signature'',
         HString (signWebhookPayload hmac ''my-secret-key'' ''1700000000'' ''{}'')),
        (''x-realtime-timestamp'', HString ''1700000000'')] ''{}'' (Some 300) 1700000100000 =
     verifyWebhook hmac ''my-secret-key''
       [(''x-realtime-signature'',
         HString (signWebhookPayload hmac ''my-secret-key'' ''1700000000'' ''{}'')),
        (''x-realtime-timestamp'', HString ''1700000000'')] ''{}'' (Some 300) 1700000100999"
    by (rule verifyWebhook_clock [THEN conjunct2, rule_format, OF same_second])
qed

text \<open>
  Claim C8 as it was written says that two calls with the same arguments return the same
  verdict whenever they run. The same call, with a valid signature over the timestamp
  1700000000 and \<open>maxAge = 300\<close>, is accepted 100 seconds after the timestamp and rejected 400
  seconds after it.
\<close>

theorem verifyWebhook_verdict_changes_with_clock:
  "\<forall>hmac.
     verifyWebhook hmac ''my-secret-key''
       [(''x-realtime-signature'',
         HString (signWebhookPayload hmac ''my-secret-key'' ''1700000000'' ''{}'')),
        (''x-realtime-timestamp'', HString ''1700000000'')] ''{}'' (Some 300) 1700000100000
       = Inr True \<and>
     verifyWebhook hmac ''my-secret-key''
       [(''x-realtime-signature'',
         HString (signWebhookPayload hmac ''my-secret-key'' ''1700000000'' ''{}'')),
        (''x-realtime-timestamp'', HString ''1700000000'')] ''{}'' (Some 300) 1700000400000
       = Inr False"
proof
  fix hmac :: hmac_sha256
  define good where "good = signWebhookPayload hmac ''my-secret-key'' ''1700000000'' ''{}''"
  have strip: "stripPrefix good = good"
    by (simp add: good_def signWebhookPayload_def stripPrefix_bare)
  have nonempty: "good \<noteq> []"
    by (simp add: good_def signWebhookPayload_nonempty)
  have ts_nonempty: "''1700000000'' \<noteq> []"
    by simp
  have early: "\<not> tooOldOrFuture ''1700000000'' 300 1700000100000"
    by (simp add: tooOldOrFuture_def parseInt10_1700000000)
  have late: "tooOldOrFuture ''1700000000'' 300 1700000400000"
    by (simp add: tooOldOrFuture_def parseInt10_1700000000)
  have "verifyWebhook hmac ''my-secret-key''
       [(''x-realtime-signature'', HString good),
        (''x-realtime-timestamp'', HString ''1700000000'')] ''{}'' (Some 300) 1700000100000
       = Inr True"
    using verifyWebhook_found [OF lookup_sig nonempty lookup_ts ts_nonempty,
        of hmac "''my-secret-key''" "''{}''" "Some 300" 1700000100000] early
    by (simp add: strip good_def [symmetric])
  moreover have "verifyWebhook hmac ''my-secret-key''
       [(''x-realtime-signature'', HString good),
        (''x-realtime-timestamp'', HString ''1700000000'')] ''{}'' (Some 300) 1700000400000
       = Inr False"
    by (rule verifyWebhook_stale [OF lookup_ts late])
  ultimately show "verifyWebhook hmac ''my-secret-key''
       [(''x-realtime-signature'',
         HString (signWebhookPayload hmac ''my-secret-key'' ''1700000000'' ''{}'')),
        (''x-realtime-timestamp'', HString ''1700000000'')] ''{}'' (Some 300) 1700000100000
       = Inr True \<and>
     verifyWebhook hmac ''my-secret-key''
       [(''x-realtime-signature'',
         HString (signWebhookPayload hmac ''my-secret-key'' ''1700000000'' ''{}'')),
        (''x-realtime-timestamp'', HString ''1700000000'')] ''{}'' (Some 300) 1700000400000
       = Inr False"
    unfolding good_def by blast
qed

section \<open>Validation in \<^verbatim>\<open>trigger\<close>\<close>

text \<open>
  Claim C9, as amended. \<^verbatim>\<open>trigger\<close> tests its selectors for truthiness: \<open>channel\<close> counts
  as set when it is a non-empty string, \<open>channels\<close> when it is an array (an empty one too).
  It throws a \<^verbatim>\<open>ValidationError\<close>, before any request, exactly when both are set or neither
  is, and goes on to the request exactly when one of them is set. It throws no error of
  another kind itself.
\<close>

theorem trigger_validation:
  "(\<exists>msg. trigger appId params = Inl (ValidationError msg)) =
     (truthy (channel params) = (channels params \<noteq> None)) \<and>
   (\<exists>req. trigger appId params = Inr req) =
     (truthy (channel params) \<noteq> (channels params \<noteq> None)) \<and>
   (\<forall>msg status text.
      trigger appId params \<noteq> Inl (AuthenticationError msg) \<and>
      trigger appId params \<noteq> Inl (ApiError msg status text) \<and>
      trigger appId params \<noteq> Inl (RealtimeError msg))"
  by (auto simp: trigger_def Let_def)

text \<open>
  Claim C9 as it was written speaks of fields that are set, or supplied. A call that supplies
  both, \<open>channel\<close> as the empty string and \<open>channels\<close> as a list, raises nothing: the request
  goes out with \<open>channels\<close> only.
\<close>

theorem trigger_empty_channel_with_channels:
  "trigger ''my-app''
     \<lparr>name = ''order-placed'', channel = Some [], channels = Some [''orders''],
      data = ''{}'', socketId = None\<rparr> =
   Inr \<lparr>req_method = ''POST'', req_path = ''/apps/my-app/events'',
        req_body = [(''name'', JString ''order-placed''), (''data'', JString ''{}''),
                    (''channels'', JStringArray [''orders''])]\<rparr>"
  by (simp add: trigger_def truthy_def)

end
